theory Spec2Isabelle
  imports Complex_Main "HOL-Library.Word"
begin

section \<open>The audio analysis service of the visualizer\<close>

text \<open>
  A shallow embedding of the class \<open>AudioService\<close> (services/audioService.ts and its
  refactored copy with \<open>extractAudioFeatures\<close>). A JavaScript \<open>number\<close> is modelled as a
  \<open>real\<close>: arithmetic is exact, rounding of IEEE doubles is not modelled, and the two
  places where the source can divide by zero are treated as follows. The ratio test of
  the rolloff scan is written out with the outcome JavaScript gives (\<open>ratioReaches\<close>).
  Divisions by \<open>bufferLength\<close> are meaningful for a non-empty frame only; the analyser
  always delivers one (\<open>frequencyBinCount\<close> is at least 16), and the theorems that
  depend on it say so.
  An element of a \<open>Uint8Array\<close> is an \<open>8 word\<close>, read as a number by \<open>unat\<close>.
\<close>

subsection \<open>Data model\<close>

type_synonym byte = "8 word"

datatype MoodType = happy | energetic | calm | melancholic

record AudioFeatures =
  energy :: real
  spectralCentroid :: real
  spectralFlatness :: real
  spectralRolloff :: real
  rms :: real
  zcr :: real

record AudioAnalysisResult =
  features :: AudioFeatures
  mood :: MoodType
  moodConfidence :: real
  dominantFrequency :: real

text \<open>The value of \<open>dataArray[i]\<close> as a number.\<close>

definition byteVal :: "byte \<Rightarrow> real" where
  "byteVal d = real (unat d)"

subsection \<open>The loops of extractAudioFeatures\<close>

text \<open>\<open>for (i ...) sum += dataArray[i]\<close> (the variable \<open>sum\<close> is written \<open>sumE\<close>).\<close>

fun sumLoop :: "byte list \<Rightarrow> real \<Rightarrow> real" where
  "sumLoop [] sumE = sumE"
| "sumLoop (d # ds) sumE = sumLoop ds (sumE + byteVal d)"

text \<open>\<open>for (i ...) rmsSum += (dataArray[i] / 255) ** 2\<close>\<close>

fun rmsLoop :: "byte list \<Rightarrow> real \<Rightarrow> real" where
  "rmsLoop [] rmsSum = rmsSum"
| "rmsLoop (d # ds) rmsSum = rmsLoop ds (rmsSum + (byteVal d / 255) ^ 2)"

text \<open>\<open>dataArray[i] > 128 ? 1 : -1\<close>\<close>

definition signOf :: "byte \<Rightarrow> int" where
  "signOf d = (if 128 < unat d then 1 else -1)"

text \<open>
  The zero-crossing loop runs from index 1 with \<open>prevValue\<close> taken from index 0.
\<close>

fun zcrLoop :: "byte list \<Rightarrow> int \<Rightarrow> real \<Rightarrow> real" where
  "zcrLoop [] prevValue z = z"
| "zcrLoop (d # ds) prevValue z =
     (let currentValue = signOf d
      in zcrLoop ds currentValue (if prevValue \<noteq> currentValue then z + 1 else z))"

definition zcrCount :: "byte list \<Rightarrow> real" where
  "zcrCount dataArray =
     (case dataArray of
        [] \<Rightarrow> 0
      | d # ds \<Rightarrow> zcrLoop ds (signOf d) 0)"

text \<open>The centroid loop carries the index, the numerator and the denominator.\<close>

fun centroidLoop :: "byte list \<Rightarrow> nat \<Rightarrow> real \<times> real \<Rightarrow> real \<times> real" where
  "centroidLoop [] i (numerator, denominator) = (numerator, denominator)"
| "centroidLoop (d # ds) i (numerator, denominator) =
     (let amplitude = byteVal d / 255
      in centroidLoop ds (Suc i) (numerator + real i * amplitude, denominator + amplitude))"

text \<open>
  The flatness loop carries the sum of logarithms, the sum of values and the count of
  the bins whose normalised value exceeds 0.01.
\<close>

fun flatnessLoop :: "byte list \<Rightarrow> real \<times> real \<times> nat \<Rightarrow> real \<times> real \<times> nat" where
  "flatnessLoop [] acc = acc"
| "flatnessLoop (d # ds) (geometricMean, arithmeticMean, nonZeroCount) =
     (let v = byteVal d / 255
      in if 0.01 < v
         then flatnessLoop ds (geometricMean + ln v, arithmeticMean + v, Suc nonZeroCount)
         else flatnessLoop ds (geometricMean, arithmeticMean, nonZeroCount))"

definition flatnessOf :: "byte list \<Rightarrow> real" where
  "flatnessOf dataArray =
     (case flatnessLoop dataArray (0, 0, 0) of
        (gSum, aSum, nonZeroCount) \<Rightarrow>
          (let geometricMean = (if 0 < nonZeroCount then exp (gSum / real nonZeroCount) else 0);
               arithmeticMean = (if 0 < nonZeroCount then aSum / real nonZeroCount else 0)
           in if 0 < arithmeticMean then geometricMean / arithmeticMean else 0))"

text \<open>
  \<open>cumulativeEnergy / totalEnergy >= rolloffThreshold\<close> on non-negative operands: with
  \<open>totalEnergy = 0\<close> the quotient is NaN when the numerator is 0 (every comparison with
  NaN is false) and +Infinity when it is positive.
\<close>

definition ratioReaches :: "real \<Rightarrow> real \<Rightarrow> real \<Rightarrow> bool" where
  "ratioReaches cumulativeEnergy totalEnergy rolloffThreshold =
     (if totalEnergy = 0 then 0 < cumulativeEnergy
      else rolloffThreshold \<le> cumulativeEnergy / totalEnergy)"

text \<open>
  The rolloff scan: \<open>spectralRolloff\<close> starts at 0 and the loop leaves at the first index
  whose cumulative sum passes the test.
\<close>

fun rolloffLoop :: "real \<Rightarrow> nat \<Rightarrow> byte list \<Rightarrow> nat \<Rightarrow> real \<Rightarrow> real" where
  "rolloffLoop totalEnergy bufferLength [] i cumulativeEnergy = 0"
| "rolloffLoop totalEnergy bufferLength (d # ds) i cumulativeEnergy =
     (let cumulativeEnergy' = cumulativeEnergy + byteVal d
      in if ratioReaches cumulativeEnergy' totalEnergy 0.85
         then real i / real bufferLength
         else rolloffLoop totalEnergy bufferLength ds (Suc i) cumulativeEnergy')"

subsection \<open>extractAudioFeatures\<close>

text \<open>
  \<open>bufferLength\<close> is the length of \<open>dataArray\<close> at the only call site; \<open>sensitivity\<close> is
  the field \<open>this.sensitivity\<close>. \<open>energyOf\<close>, \<open>zcrCount\<close> and \<open>flatnessOf\<close> are the
  blocks of the function body that compute the respective feature; the older copy of
  the file has the same body inline in its analysis loop, with noise floor 0.05.
\<close>

definition energyOf :: "byte list \<Rightarrow> real \<Rightarrow> real \<Rightarrow> real" where
  "energyOf dataArray noiseFloor sensitivity =
     (let bufferLength = length dataArray;
          sumE = sumLoop dataArray 0;
          energy = sumE / (real bufferLength * 255);
          energy = max 0 (energy - noiseFloor)
      in min 1 (energy * 2.0 * sensitivity))"

definition extractAudioFeatures :: "byte list \<Rightarrow> real \<Rightarrow> real \<Rightarrow> AudioFeatures" where
  "extractAudioFeatures dataArray noiseFloor sensitivity =
     (let bufferLength = length dataArray;
          sumE = sumLoop dataArray 0;
          rmsSum = rmsLoop dataArray 0;
          (numerator, denominator) = centroidLoop dataArray 0 (0, 0)
      in \<lparr> energy = energyOf dataArray noiseFloor sensitivity,
           spectralCentroid =
             (if denominator = 0 then 0 else numerator / denominator / real bufferLength),
           spectralFlatness = flatnessOf dataArray,
           spectralRolloff = rolloffLoop sumE bufferLength dataArray 0 0,
           rms = sqrt (rmsSum / real bufferLength),
           zcr = zcrCount dataArray / real bufferLength \<rparr>)"

subsection \<open>The service object\<close>

text \<open>
  The Web Audio objects the service holds, reduced to what the service reads and
  writes: the context's sample rate and whether \<open>close()\<close> was called, the analyser's
  \<open>fftSize\<close> and the spectrum it currently holds, and whether the tracks of the media
  stream were stopped.
\<close>

record AudioContext =
  sampleRate :: real
  contextClosed :: bool

record AnalyserNode =
  fftSize :: nat
  frequencyData :: "byte list"

record MediaStream =
  tracksStopped :: bool

definition frequencyBinCount :: "AnalyserNode \<Rightarrow> nat" where
  "frequencyBinCount a = fftSize a div 2"

text \<open>
  \<open>getByteFrequencyData\<close> into a fresh \<open>Uint8Array(n)\<close>: the array is filled from
  the analyser's spectrum; elements the analyser does not provide stay 0.
\<close>

definition getByteFrequencyData :: "AnalyserNode \<Rightarrow> nat \<Rightarrow> byte list" where
  "getByteFrequencyData a n =
     take n (frequencyData a) @ replicate (n - length (frequencyData a)) 0"

text \<open>
  A subscribed callback is known to the service by its identity (\<open>listener !== callback\<close>
  compares references). What a callback does when called is given by the host: it
  returns or it throws.
\<close>

type_synonym callback = nat

datatype outcome = Returns | Throws

type_synonym host = "callback \<Rightarrow> AudioAnalysisResult \<Rightarrow> outcome"

record AudioService =
  audioContext :: "AudioContext option"
  analyzer :: "AnalyserNode option"
  stream :: "MediaStream option"
  isInitialized :: bool
  sensitivity :: real
  listeners :: "callback list"
  currentMood :: MoodType
  moodChangeTime :: int

text \<open>
  The field initialisers of the class; \<open>moodDetection.defaultSensitivity\<close> comes from a
  settings module and is a parameter here.
\<close>

definition newService :: "real \<Rightarrow> AudioService" where
  "newService defaultSensitivity =
     \<lparr> audioContext = None, analyzer = None, stream = None, isInitialized = False,
       sensitivity = defaultSensitivity, listeners = [], currentMood = calm,
       moodChangeTime = 0 \<rparr>"

text \<open>
  The private field \<open>moodChangeThreshold\<close> is 100 and never assigned; the older copy of
  the file compares with the literal 100 (its field, 300, is not read).
\<close>

definition moodChangeThreshold :: int where
  "moodChangeThreshold = 100"

subsection \<open>detectMood\<close>

text \<open>
  The value of the local variable \<open>detectedMood\<close> after the chain of conditionals.
  \<open>this.currentMood || "calm"\<close> is \<open>this.currentMood\<close>: a mood is a non-empty string.
\<close>

definition detectedMood :: "AudioFeatures \<Rightarrow> MoodType \<Rightarrow> MoodType" where
  "detectedMood f current =
     (if energy f < 0.03 then current
      else if energy f > 0.3 \<and> zcr f > 0.2 then energetic
      else if energy f > 0.2 \<and> spectralCentroid f > 0.3 then happy
      else if spectralFlatness f > 0.15 \<and> energy f < 0.15 then melancholic
      else calm)"

text \<open>\<open>Date.now()\<close> is the argument \<open>now\<close>, in milliseconds.\<close>

definition detectMood :: "AudioFeatures \<Rightarrow> int \<Rightarrow> AudioService \<Rightarrow> (MoodType \<times> real) \<times> AudioService" where
  "detectMood f now s =
     (let detected = detectedMood f (currentMood s);
          s' = (if detected \<noteq> currentMood s
                then (if now - moodChangeTime s > moodChangeThreshold
                      then s\<lparr>currentMood := detected, moodChangeTime := now\<rparr>
                      else s)
                else s)
      in ((currentMood s', 1.0), s'))"

text \<open>The classifier run over successive frames, each with the time it is processed at.\<close>

definition classifyAll :: "AudioService \<Rightarrow> (AudioFeatures \<times> int) list \<Rightarrow> AudioService" where
  "classifyAll s frames = foldl (\<lambda>s (f, now). snd (detectMood f now s)) s frames"

subsection \<open>calculateDominantFrequency\<close>

text \<open>The scan for the bin of highest amplitude: only a strictly larger value is kept.\<close>

fun maxLoop :: "byte list \<Rightarrow> nat \<Rightarrow> nat \<times> nat \<Rightarrow> nat \<times> nat" where
  "maxLoop [] i (maxIndex, maxValue) = (maxIndex, maxValue)"
| "maxLoop (d # ds) i (maxIndex, maxValue) =
     (if maxValue < unat d
      then maxLoop ds (Suc i) (i, unat d)
      else maxLoop ds (Suc i) (maxIndex, maxValue))"

text \<open>
  services/audioService.ts: returns 0 without an analyser;
  \<open>this.audioContext?.sampleRate || 44100\<close> falls back when the context is missing or
  its rate is 0.
\<close>

definition calculateDominantFrequency :: "AudioService \<Rightarrow> real" where
  "calculateDominantFrequency s =
     (case analyzer s of
        None \<Rightarrow> 0
      | Some a \<Rightarrow>
          (let bufferLength = frequencyBinCount a;
               dataArray = getByteFrequencyData a bufferLength;
               (maxIndex, maxValue) = maxLoop dataArray 0 (0, 0);
               rate = (case audioContext s of
                         None \<Rightarrow> 44100
                       | Some c \<Rightarrow> if sampleRate c = 0 then 44100 else sampleRate c)
           in (real maxIndex * rate) / (real (fftSize a) * 2)))"

text \<open>The refactored copy returns 0 unless both the analyser and the context exist.\<close>

definition calculateDominantFrequencyGuarded :: "AudioService \<Rightarrow> real" where
  "calculateDominantFrequencyGuarded s =
     (case (analyzer s, audioContext s) of
        (Some a, Some c) \<Rightarrow>
          (let bufferLength = frequencyBinCount a;
               dataArray = getByteFrequencyData a bufferLength;
               (maxIndex, maxValue) = maxLoop dataArray 0 (0, 0)
           in (real maxIndex * sampleRate c) / (real (fftSize a) * 2))
      | _ \<Rightarrow> 0)"

subsection \<open>setSensitivity, subscribe, notifyListeners, stop\<close>

definition setSensitivity :: "real \<Rightarrow> AudioService \<Rightarrow> AudioService" where
  "setSensitivity v s = s\<lparr>sensitivity := max 0 (min 1 v)\<rparr>"

text \<open>The closure that \<open>subscribe\<close> returns, as a function on the service.\<close>

definition unsubscribe :: "callback \<Rightarrow> AudioService \<Rightarrow> AudioService" where
  "unsubscribe callback s =
     s\<lparr>listeners := filter (\<lambda>listener. listener \<noteq> callback) (listeners s)\<rparr>"

definition subscribe :: "callback \<Rightarrow> AudioService \<Rightarrow> AudioService \<times> (AudioService \<Rightarrow> AudioService)" where
  "subscribe callback s = (s\<lparr>listeners := listeners s @ [callback]\<rparr>, unsubscribe callback)"

text \<open>
  \<open>this.listeners.forEach((listener) => listener(result))\<close>: the callbacks are called in
  order; an exception leaves \<open>forEach\<close> at once. The result is the list of callbacks
  that were called and whether an exception left the loop.
\<close>

fun forEachListener :: "host \<Rightarrow> AudioAnalysisResult \<Rightarrow> callback list \<Rightarrow> callback list \<times> bool" where
  "forEachListener run result [] = ([], False)"
| "forEachListener run result (listener # rest) =
     (case run listener result of
        Throws \<Rightarrow> ([listener], True)
      | Returns \<Rightarrow>
          (case forEachListener run result rest of
             (called, thrown) \<Rightarrow> (listener # called, thrown)))"

definition notifyListeners :: "host \<Rightarrow> AudioAnalysisResult \<Rightarrow> AudioService \<Rightarrow> callback list \<times> bool" where
  "notifyListeners run result s = forEachListener run result (listeners s)"

definition stop :: "AudioService \<Rightarrow> AudioService" where
  "stop s =
     s\<lparr> isInitialized := False,
        stream := map_option (\<lambda>m. m\<lparr>tracksStopped := True\<rparr>) (stream s),
        audioContext := map_option (\<lambda>c. c\<lparr>contextClosed := True\<rparr>) (audioContext s) \<rparr>"

subsection \<open>The analysis loop\<close>

text \<open>
  The service together with the host's side of the loop: whether an animation-frame
  callback is pending (\<open>requestAnimationFrame(analyzeAudio)\<close> was called and has not run
  yet) and the log of every result handed to a callback.
\<close>

record Runtime =
  service :: AudioService
  framePending :: bool
  received :: "(callback \<times> AudioAnalysisResult) list"

definition noiseFloor :: real where
  "noiseFloor = 0.03"

text \<open>
  The body of the closure \<open>analyzeAudio\<close> between its guard and the call of
  \<open>notifyListeners\<close>: the frame is read, the features are extracted, the mood is
  classified and the result is assembled. The two reads of the analyser within one
  run (here and in \<open>calculateDominantFrequency\<close>) see the same spectrum.
\<close>

definition analyzeFrame :: "int \<Rightarrow> AudioService \<Rightarrow> AnalyserNode \<Rightarrow> AudioAnalysisResult \<times> AudioService" where
  "analyzeFrame now s a =
     (let dataArray = getByteFrequencyData a (frequencyBinCount a);
          features = extractAudioFeatures dataArray noiseFloor (sensitivity s);
          (moodResult, s') = detectMood features now s
      in (\<lparr> features = features, mood = fst moodResult, moodConfidence = snd moodResult,
            dominantFrequency = calculateDominantFrequencyGuarded s' \<rparr>, s'))"

text \<open>
  One run of the closure \<open>analyzeAudio\<close> at time \<open>now\<close>. An exception (a callback that
  throws, or the non-null assertion on a missing analyser) leaves the function before
  \<open>requestAnimationFrame\<close> is reached.
\<close>

definition analyzeAudio :: "host \<Rightarrow> int \<Rightarrow> Runtime \<Rightarrow> Runtime" where
  "analyzeAudio run now r =
     (let s = service r
      in if \<not> isInitialized s then r\<lparr>framePending := False\<rparr>
         else
           (case analyzer s of
              None \<Rightarrow> r\<lparr>framePending := False\<rparr>
            | Some a \<Rightarrow>
                (case analyzeFrame now s a of
                   (result, s') \<Rightarrow>
                     (case notifyListeners run result s' of
                        (called, thrown) \<Rightarrow>
                          \<lparr> service = s', framePending = \<not> thrown,
                            received = received r @ map (\<lambda>listener. (listener, result)) called \<rparr>))))"

text \<open>
  What can happen to a running service: the host runs the pending animation-frame
  callback (the analyser then holds the given spectrum and the clock shows the given
  time), or somebody calls \<open>stop()\<close>.
\<close>

datatype event = Frame "byte list" int | Stop

fun step :: "host \<Rightarrow> Runtime \<Rightarrow> event \<Rightarrow> Runtime" where
  "step run r (Frame spectrum now) =
     (if framePending r
      then analyzeAudio run now
             (r\<lparr>service := (service r)\<lparr>analyzer :=
                  map_option (\<lambda>a. a\<lparr>frequencyData := spectrum\<rparr>) (analyzer (service r))\<rparr>\<rparr>)
      else r)"
| "step run r Stop = r\<lparr>service := stop (service r)\<rparr>"

definition runEvents :: "host \<Rightarrow> Runtime \<Rightarrow> event list \<Rightarrow> Runtime" where
  "runEvents run r evs = foldl (step run) r evs"

subsection \<open>The life cycle: initialize, stop and the animation frames\<close>

text \<open>
  \<open>initialize()\<close> is asynchronous. A call that finds the service initialised returns at
  once; otherwise it is suspended at \<open>await getUserMedia\<close>. When the host grants the
  microphone, the rest of the function runs: it stores the stream, the new context and
  the new analyser, sets \<open>isInitialized\<close> and calls \<open>startAnalysisLoop\<close>, whose first
  \<open>analyzeAudio()\<close> runs at once (an exception in it is caught by \<open>initialize\<close>). When
  the host refuses, the call returns false. A failure after the stream was obtained is
  not modelled.

  \<open>stop()\<close> keeps no handle of the animation-frame request and cancels neither a
  pending animation-frame callback nor a suspended \<open>initialize()\<close>, so several closures
  \<open>analyzeAudio\<close> can be pending at once; they all read the fields of the one service.
  Every analyser is configured with the same \<open>fftSize\<close>, so the buffer length a closure
  captured is the current one. \<open>close()\<close> on a context that is closed already returns a
  rejected promise, which nobody handles; it is counted.
\<close>

record Lifecycle =
  serviceState :: AudioService
  pendingFrames :: nat
  awaitingMedia :: nat
  published :: "(callback \<times> AudioAnalysisResult) list"
  rejectedPromises :: nat

text \<open>One pending closure runs; the flag tells whether it requested a new frame.\<close>

definition runClosure :: "host \<Rightarrow> int \<Rightarrow> Lifecycle \<Rightarrow> Lifecycle \<times> bool" where
  "runClosure run now z =
     (let r = analyzeAudio run now
                \<lparr> service = serviceState z, framePending = True, received = published z \<rparr>
      in (z\<lparr>serviceState := service r, published := received r\<rparr>, framePending r))"

text \<open>
  An animation frame runs the callbacks that were pending when it began; the requests
  they make are for the next frame.
\<close>

fun runPendingFrames :: "host \<Rightarrow> int \<Rightarrow> nat \<Rightarrow> nat \<Rightarrow> Lifecycle \<Rightarrow> Lifecycle" where
  "runPendingFrames run now 0 requested z = z\<lparr>pendingFrames := requested\<rparr>"
| "runPendingFrames run now (Suc n) requested z =
     (case runClosure run now z of
        (z', again) \<Rightarrow>
          runPendingFrames run now n (if again then Suc requested else requested) z')"

definition startAnalysisLoop :: "host \<Rightarrow> int \<Rightarrow> Lifecycle \<Rightarrow> Lifecycle" where
  "startAnalysisLoop run now z =
     (if analyzer (serviceState z) = None \<or> audioContext (serviceState z) = None then z
      else
        (case runClosure run now z of
           (z', again) \<Rightarrow>
             if again then z'\<lparr>pendingFrames := Suc (pendingFrames z')\<rparr> else z'))"

datatype lifecycleEvent =
    InitializeCalled
  | MediaGranted MediaStream AudioContext AnalyserNode int
  | MediaDenied
  | AnimationFrame "byte list" int
  | StopCalled

fun lifecycleStep :: "host \<Rightarrow> Lifecycle \<Rightarrow> lifecycleEvent \<Rightarrow> Lifecycle" where
  "lifecycleStep run z InitializeCalled =
     (if isInitialized (serviceState z) then z else z\<lparr>awaitingMedia := Suc (awaitingMedia z)\<rparr>)"
| "lifecycleStep run z (MediaGranted m c a now) =
     (if awaitingMedia z = 0 then z
      else startAnalysisLoop run now
             (z\<lparr> awaitingMedia := awaitingMedia z - 1,
                 serviceState := (serviceState z)\<lparr> stream := Some m, audioContext := Some c,
                                          analyzer := Some a, isInitialized := True \<rparr> \<rparr>))"
| "lifecycleStep run z MediaDenied =
     (if awaitingMedia z = 0 then z else z\<lparr>awaitingMedia := awaitingMedia z - 1\<rparr>)"
| "lifecycleStep run z (AnimationFrame spectrum now) =
     runPendingFrames run now (pendingFrames z) 0
       (z\<lparr>serviceState := (serviceState z)\<lparr>analyzer :=
            map_option (\<lambda>a. a\<lparr>frequencyData := spectrum\<rparr>) (analyzer (serviceState z))\<rparr>\<rparr>)"
| "lifecycleStep run z StopCalled =
     z\<lparr> serviceState := stop (serviceState z),
        rejectedPromises := rejectedPromises z +
          (case audioContext (serviceState z) of
             None \<Rightarrow> 0
           | Some c \<Rightarrow> if contextClosed c then 1 else 0) \<rparr>"

definition runLifecycle :: "host \<Rightarrow> Lifecycle \<Rightarrow> lifecycleEvent list \<Rightarrow> Lifecycle" where
  "runLifecycle run z evs = foldl (lifecycleStep run) z evs"

text \<open>The events in which a call of \<open>initialize()\<close> obtains the microphone.\<close>

fun acquires :: "lifecycleEvent \<Rightarrow> bool" where
  "acquires (MediaGranted m c a now) = True"
| "acquires ev = False"

fun noAcquisition :: "lifecycleEvent list \<Rightarrow> bool" where
  "noAcquisition [] = True"
| "noAcquisition (ev # evs) = (\<not> acquires ev \<and> noAcquisition evs)"

subsection \<open>The classifier in the words of the specification\<close>

text \<open>
  The transition rules as a table of guards and candidates, evaluated in order with the
  first match winning and \<open>calm\<close> as the fallback.
\<close>

definition moodRules :: "AudioFeatures \<Rightarrow> MoodType \<Rightarrow> (bool \<times> MoodType) list" where
  "moodRules f current =
     [ (energy f < 0.03, current),
       (energy f > 0.3 \<and> zcr f > 0.2, energetic),
       (energy f > 0.2 \<and> spectralCentroid f > 0.3, happy),
       (spectralFlatness f > 0.15 \<and> energy f < 0.15, melancholic) ]"

fun firstMatch :: "(bool \<times> 'a) list \<Rightarrow> 'a \<Rightarrow> 'a" where
  "firstMatch [] fallback = fallback"
| "firstMatch ((guard, v) # rules) fallback = (if guard then v else firstMatch rules fallback)"

subsection \<open>The extractor in the words of the specification\<close>

text \<open>The normalised magnitudes \<open>a_i = m_i / 255\<close> and their mean.\<close>

definition normalised :: "byte list \<Rightarrow> real list" where
  "normalised dataArray = map (\<lambda>d. byteVal d / 255) dataArray"

definition mean :: "real list \<Rightarrow> real" where
  "mean xs = sum_list xs / real (length xs)"

text \<open>The total raw magnitude and the cumulative raw magnitude up to and including bin \<open>k\<close>.\<close>

definition totalMagnitude :: "byte list \<Rightarrow> real" where
  "totalMagnitude dataArray = sum_list (map byteVal dataArray)"

definition cumulativeMagnitude :: "byte list \<Rightarrow> nat \<Rightarrow> real" where
  "cumulativeMagnitude dataArray k = sum_list (map byteVal (take (Suc k) dataArray))"

text \<open>The normalised magnitudes that enter the flatness: those above 0.01.\<close>

definition qualifying :: "byte list \<Rightarrow> real list" where
  "qualifying dataArray = filter (\<lambda>v. 0.01 < v) (normalised dataArray)"

subsection \<open>A host with one failing subscriber\<close>

text \<open>The callback \<open>bad\<close> throws on every result; every other callback returns.\<close>

definition throwingHost :: "callback \<Rightarrow> host" where
  "throwingHost bad listener result = (if listener = bad then Throws else Returns)"

subsection \<open>Sample inputs\<close>

text \<open>
  A running service with two subscribers whose analyser (\<open>fftSize\<close> 32, hence 16 bins)
  holds a silent frame, and the result that one analysis of it publishes.
\<close>

definition silentAnalyser :: AnalyserNode where
  "silentAnalyser = \<lparr> fftSize = 32, frequencyData = replicate 16 0 \<rparr>"

definition twoSubscribers :: AudioService where
  "twoSubscribers =
     \<lparr> audioContext = Some \<lparr> sampleRate = 48000, contextClosed = False \<rparr>,
       analyzer = Some silentAnalyser, stream = None, isInitialized = True, sensitivity = 1,
       listeners = [10, 20], currentMood = calm, moodChangeTime = 0 \<rparr>"

definition silentResult :: AudioAnalysisResult where
  "silentResult =
     \<lparr> features = \<lparr> energy = 0, spectralCentroid = 0, spectralFlatness = 0,
                    spectralRolloff = 0, rms = 0, zcr = 0 \<rparr>,
       mood = calm, moodConfidence = 1, dominantFrequency = 0 \<rparr>"

text \<open>The same service after a restart: a fresh stream, context and analyser.\<close>

definition restarted :: AudioService where
  "restarted =
     \<lparr> audioContext = Some \<lparr> sampleRate = 48000, contextClosed = False \<rparr>,
       analyzer = Some silentAnalyser, stream = Some \<lparr> tracksStopped = False \<rparr>,
       isInitialized = True, sensitivity = 1, listeners = [10, 20], currentMood = calm,
       moodChangeTime = 0 \<rparr>"

section \<open>Properties\<close>

subsection \<open>Mood classification\<close>

lemma detectedMood_firstMatch: "detectedMood f current = firstMatch (moodRules f current) calm"
  by (simp add: detectedMood_def moodRules_def)

text \<open>
  C1. The candidate mood is the first match of the five rules in their priority order;
  the mood that \<open>detectMood\<close> reports is the current mood or this candidate, and it is
  the candidate whenever the debounce time has passed.
\<close>

theorem detectMood_rule_order:
  "detectedMood f current = firstMatch (moodRules f current) calm
   \<and> fst (fst (detectMood f now s)) \<in> {currentMood s, firstMatch (moodRules f (currentMood s)) calm}
   \<and> (moodChangeThreshold < now - moodChangeTime s \<longrightarrow>
        fst (fst (detectMood f now s)) = firstMatch (moodRules f (currentMood s)) calm)"
  by (auto simp add: detectMood_def Let_def detectedMood_firstMatch)

theorem detectMood_rule_order_witness:
  "moodChangeThreshold < 1000 - moodChangeTime (newService 0.8)
   \<and> fst (fst (detectMood \<lparr> energy = 0.5, spectralCentroid = 0.1, spectralFlatness = 0.1,
        spectralRolloff = 0.2, rms = 0.4, zcr = 0.3 \<rparr> 1000 (newService 0.8))) = energetic"
  using detectMood_rule_order [of "\<lparr> energy = 0.5, spectralCentroid = 0.1, spectralFlatness = 0.1,
        spectralRolloff = 0.2, rms = 0.4, zcr = 0.3 \<rparr>" calm 1000 "newService 0.8"]
  by (simp add: moodRules_def newService_def moodChangeThreshold_def)

subsection \<open>Debounce\<close>

lemma detectMood_committed:
  "detectedMood f (currentMood s) \<noteq> currentMood s \<Longrightarrow> moodChangeThreshold < now - moodChangeTime s \<Longrightarrow>
   detectMood f now s =
     ((detectedMood f (currentMood s), 1), s\<lparr>currentMood := detectedMood f (currentMood s), moodChangeTime := now\<rparr>)"
  by (simp add: detectMood_def Let_def)

lemma detectMood_retained:
  "detectedMood f (currentMood s) = currentMood s \<or> \<not> moodChangeThreshold < now - moodChangeTime s \<Longrightarrow>
   detectMood f now s = ((currentMood s, 1), s)"
  by (auto simp add: detectMood_def Let_def)

lemma detectMood_time_mono: "moodChangeTime s \<le> moodChangeTime (snd (detectMood f now s))"
  by (simp add: detectMood_def Let_def moodChangeThreshold_def)

lemma classifyAll_time_mono: "moodChangeTime s \<le> moodChangeTime (classifyAll s frames)"
proof (induction frames arbitrary: s)
  case Nil
  show ?case by (simp add: classifyAll_def)
next
  case (Cons fr frames)
  obtain f now where fr: "fr = (f, now)" by (cases fr)
  have "moodChangeTime s \<le> moodChangeTime (snd (detectMood f now s))"
    by (rule detectMood_time_mono)
  also have "\<dots> \<le> moodChangeTime (classifyAll (snd (detectMood f now s)) frames)"
    by (rule Cons.IH)
  finally show ?case by (simp add: classifyAll_def fr)
qed

text \<open>
  C2. When the candidate differs from the current mood, the transition is committed
  (current mood set to the candidate, timestamp set to \<open>now\<close>) exactly if more than
  the threshold has passed since the stored timestamp, and otherwise the state is
  kept; a frame less than the threshold after a committed transition changes nothing;
  the timestamp changes only in a committed transition, and it never decreases over
  any sequence of frames.
\<close>

theorem detectMood_debounce:
  assumes "detectedMood f (currentMood s) \<noteq> currentMood s"
  shows "((currentMood (snd (detectMood f now s)) = detectedMood f (currentMood s)
            \<and> moodChangeTime (snd (detectMood f now s)) = now)
          \<longleftrightarrow> moodChangeThreshold < now - moodChangeTime s)
     \<and> (moodChangeThreshold < now - moodChangeTime s \<longrightarrow>
          snd (detectMood f now s)
            = s\<lparr>currentMood := detectedMood f (currentMood s), moodChangeTime := now\<rparr>)
     \<and> (\<not> moodChangeThreshold < now - moodChangeTime s \<longrightarrow> detectMood f now s = ((currentMood s, 1), s))
     \<and> (moodChangeThreshold < now - moodChangeTime s \<and> now' - now < moodChangeThreshold \<longrightarrow>
          snd (detectMood f' now' (snd (detectMood f now s))) = snd (detectMood f now s))
     \<and> (moodChangeTime (snd (detectMood f' now' s')) \<noteq> moodChangeTime s' \<longrightarrow>
          moodChangeTime (snd (detectMood f' now' s')) = now'
          \<and> currentMood (snd (detectMood f' now' s')) = detectedMood f' (currentMood s')
          \<and> detectedMood f' (currentMood s') \<noteq> currentMood s'
          \<and> moodChangeThreshold < now' - moodChangeTime s')
     \<and> moodChangeTime s' \<le> moodChangeTime (classifyAll s' frames)"
proof (intro conjI impI)
  show "(currentMood (snd (detectMood f now s)) = detectedMood f (currentMood s)
            \<and> moodChangeTime (snd (detectMood f now s)) = now)
          \<longleftrightarrow> moodChangeThreshold < now - moodChangeTime s"
    using assms by (cases "moodChangeThreshold < now - moodChangeTime s")
      (simp_all add: detectMood_committed detectMood_retained)
next
  assume "moodChangeThreshold < now - moodChangeTime s"
  then show "snd (detectMood f now s)
            = s\<lparr>currentMood := detectedMood f (currentMood s), moodChangeTime := now\<rparr>"
    using assms by (simp add: detectMood_committed)
next
  assume "\<not> moodChangeThreshold < now - moodChangeTime s"
  then show "detectMood f now s = ((currentMood s, 1), s)"
    by (simp add: detectMood_retained)
next
  assume a: "moodChangeThreshold < now - moodChangeTime s \<and> now' - now < moodChangeThreshold"
  then have c: "snd (detectMood f now s)
            = s\<lparr>currentMood := detectedMood f (currentMood s), moodChangeTime := now\<rparr>"
    using assms by (simp add: detectMood_committed)
  have "\<not> moodChangeThreshold < now' - moodChangeTime (snd (detectMood f now s))"
    using a by (simp add: c)
  then show "snd (detectMood f' now' (snd (detectMood f now s))) = snd (detectMood f now s)"
    by (simp add: detectMood_retained)
next
  assume ch: "moodChangeTime (snd (detectMood f' now' s')) \<noteq> moodChangeTime s'"
  then have "detectedMood f' (currentMood s') \<noteq> currentMood s' \<and> moodChangeThreshold < now' - moodChangeTime s'"
  proof -
    have "\<not> (detectedMood f' (currentMood s') = currentMood s' \<or> \<not> moodChangeThreshold < now' - moodChangeTime s')"
    proof
      assume "detectedMood f' (currentMood s') = currentMood s' \<or> \<not> moodChangeThreshold < now' - moodChangeTime s'"
      then have "detectMood f' now' s' = ((currentMood s', 1), s')"
        by (rule detectMood_retained)
      with ch show False by simp
    qed
    then show ?thesis by simp
  qed
  then show "moodChangeTime (snd (detectMood f' now' s')) = now'"
    and "currentMood (snd (detectMood f' now' s')) = detectedMood f' (currentMood s')"
    and "detectedMood f' (currentMood s') \<noteq> currentMood s'"
    and "moodChangeThreshold < now' - moodChangeTime s'"
    by (simp_all add: detectMood_committed)
next
  show "moodChangeTime s' \<le> moodChangeTime (classifyAll s' frames)"
    by (rule classifyAll_time_mono)
qed

theorem detectMood_debounce_witness:
  "detectedMood \<lparr> energy = 0.5, spectralCentroid = 0.1, spectralFlatness = 0.1,
       spectralRolloff = 0.2, rms = 0.4, zcr = 0.3 \<rparr> (currentMood (newService 0.8))
     \<noteq> currentMood (newService 0.8)
   \<and> moodChangeThreshold < 1000 - moodChangeTime (newService 0.8)
   \<and> (1050::int) - 1000 < moodChangeThreshold
   \<and> \<not> moodChangeThreshold < 50 - moodChangeTime (newService 0.8)
   \<and> snd (detectMood \<lparr> energy = 0.5, spectralCentroid = 0.1, spectralFlatness = 0.1,
       spectralRolloff = 0.2, rms = 0.4, zcr = 0.3 \<rparr> 1000 (newService 0.8))
       = (newService 0.8)\<lparr>currentMood := energetic, moodChangeTime := 1000\<rparr>
   \<and> snd (detectMood \<lparr> energy = 0.1, spectralCentroid = 0.1, spectralFlatness = 0.1,
            spectralRolloff = 0.2, rms = 0.4, zcr = 0.3 \<rparr> 1050
          (snd (detectMood \<lparr> energy = 0.5, spectralCentroid = 0.1, spectralFlatness = 0.1,
            spectralRolloff = 0.2, rms = 0.4, zcr = 0.3 \<rparr> 1000 (newService 0.8))))
       = (newService 0.8)\<lparr>currentMood := energetic, moodChangeTime := 1000\<rparr>
   \<and> detectMood \<lparr> energy = 0.5, spectralCentroid = 0.1, spectralFlatness = 0.1,
       spectralRolloff = 0.2, rms = 0.4, zcr = 0.3 \<rparr> 50 (newService 0.8)
       = ((calm, 1), newService 0.8)"
proof -
  let ?f = "\<lparr> energy = 0.5, spectralCentroid = 0.1, spectralFlatness = 0.1,
       spectralRolloff = 0.2, rms = 0.4, zcr = 0.3 \<rparr>"
  let ?g = "\<lparr> energy = 0.1, spectralCentroid = 0.1, spectralFlatness = 0.1,
            spectralRolloff = 0.2, rms = 0.4, zcr = 0.3 \<rparr>"
  let ?s = "newService 0.8"
  have h: "detectedMood ?f (currentMood ?s) \<noteq> currentMood ?s"
    by (simp add: detectedMood_def newService_def)
  have a: "moodChangeThreshold < 1000 - moodChangeTime ?s"
    by (simp add: newService_def moodChangeThreshold_def)
  have b: "(1050::int) - 1000 < moodChangeThreshold"
    by (simp add: moodChangeThreshold_def)
  have c: "\<not> moodChangeThreshold < 50 - moodChangeTime ?s"
    by (simp add: newService_def moodChangeThreshold_def)
  note t1 = detectMood_debounce [OF h, of 1000 1050 ?g ?s "[]"]
  note t2 = detectMood_debounce [OF h, of 50 1050 ?g ?s "[]"]
  have "snd (detectMood ?f 1000 ?s)
          = ?s\<lparr>currentMood := detectedMood ?f (currentMood ?s), moodChangeTime := 1000\<rparr>"
    using t1 a by blast
  then have r1: "snd (detectMood ?f 1000 ?s) = ?s\<lparr>currentMood := energetic, moodChangeTime := 1000\<rparr>"
    by (simp add: detectedMood_def newService_def)
  have r2: "snd (detectMood ?g 1050 (snd (detectMood ?f 1000 ?s))) = snd (detectMood ?f 1000 ?s)"
    using t1 a b by blast
  have r3: "detectMood ?f 50 ?s = ((calm, 1), ?s)"
    using t2 c by (simp add: newService_def)
  show ?thesis
    using h a b c r1 r2 r3 by (simp only: simp_thms)
qed

subsection \<open>Energy\<close>

lemma sumLoop_sum_list: "sumLoop ds acc = acc + sum_list (map byteVal ds)"
  by (induction ds arbitrary: acc) simp_all

lemma sum_list_normalised: "sum_list (normalised ds) = sum_list (map byteVal ds) / 255"
  by (induction ds) (simp_all add: normalised_def add_divide_distrib)

lemma length_normalised: "length (normalised ds) = length ds"
  by (simp add: normalised_def)

lemma energy_mean:
  "sumLoop ds 0 / (real (length ds) * 255) = mean (normalised ds)"
  by (simp add: sumLoop_sum_list mean_def sum_list_normalised length_normalised)

lemma mean_half_saturated:
  assumes "0 < k"
  shows "mean (normalised (replicate k 255 @ replicate k 0)) = 1 / 2"
proof -
  have "sum_list (map byteVal (replicate k 255 @ replicate k 0)) = real k * 255"
    by (simp add: sum_list_replicate byteVal_def)
  then have "sum_list (normalised (replicate k 255 @ replicate k 0)) = real k"
    by (simp add: sum_list_normalised)
  then show ?thesis
    using assms by (simp add: mean_def length_normalised)
qed

text \<open>
  C3. For a non-empty frame the published energy is
  \<open>min 1 (max 0 (mean (m_i / 255) - noiseFloor) * 2.0 * g)\<close>; for a frame whose lower
  half is 255 and whose upper half is 0, with sensitivity 1 and noise floor 0.03, it
  is 0.94.
\<close>

theorem energy_formula:
  "(dataArray \<noteq> [] \<longrightarrow>
      energy (extractAudioFeatures dataArray nf g)
        = min 1 (max 0 (mean (normalised dataArray) - nf) * 2.0 * g))
   \<and> (0 < k \<longrightarrow>
      energy (extractAudioFeatures (replicate k 255 @ replicate k 0) 0.03 1) = 0.94)"
proof (intro conjI impI)
  show "energy (extractAudioFeatures dataArray nf g)
          = min 1 (max 0 (mean (normalised dataArray) - nf) * 2.0 * g)"
    unfolding extractAudioFeatures_def energyOf_def Let_def
    by (simp add: energy_mean split: prod.splits)
next
  assume k: "0 < k"
  have "energy (extractAudioFeatures (replicate k 255 @ replicate k 0) 0.03 1)
          = min 1 (max 0 (mean (normalised (replicate k 255 @ replicate k 0)) - 0.03) * 2.0 * 1)"
    unfolding extractAudioFeatures_def energyOf_def Let_def
    by (simp only: energy_mean AudioFeatures.simps split: prod.splits) simp
  also have "\<dots> = 0.94"
    by (simp add: mean_half_saturated [OF k])
  finally show "energy (extractAudioFeatures (replicate k 255 @ replicate k 0) 0.03 1) = 0.94" .
qed

theorem energy_formula_witness:
  "[255, 255, 0, 0 :: byte] \<noteq> []
   \<and> energy (extractAudioFeatures [255, 255, 0, 0] 0.03 1)
       = min 1 (max 0 (mean (normalised [255, 255, 0, 0]) - 0.03) * 2.0 * 1)
   \<and> (0::nat) < 2
   \<and> energy (extractAudioFeatures (replicate 2 255 @ replicate 2 0) 0.03 1) = 0.94"
  using energy_formula [of "[255, 255, 0, 0]" "0.03" 1 2] by simp

subsection \<open>The silent frame\<close>

lemma byteVal_nonneg: "0 \<le> byteVal d"
  unfolding byteVal_def by (rule of_nat_0_le_iff)

lemma byteVal_zero: "byteVal 0 = 0"
  by (simp add: byteVal_def)

lemma sumLoop_zero: "sumLoop (replicate n 0) acc = acc"
  by (induction n arbitrary: acc) (simp_all add: byteVal_zero)

lemma rmsLoop_zero: "rmsLoop (replicate n 0) acc = acc"
  by (induction n arbitrary: acc) (simp_all add: byteVal_zero)

lemma signOf_zero: "signOf 0 = -1"
  by (simp add: signOf_def)

lemma zcrLoop_zero: "zcrLoop (replicate n 0) (-1) z = z"
  by (induction n arbitrary: z) (simp_all add: signOf_zero)

lemma zcrCount_zero: "zcrCount (replicate n 0) = 0"
  by (cases n) (simp_all add: zcrCount_def signOf_zero zcrLoop_zero)

lemma centroidLoop_zero: "centroidLoop (replicate n 0) i (num, den) = (num, den)"
  by (induction n arbitrary: i) (simp_all add: byteVal_zero)

lemma flatnessLoop_zero: "flatnessLoop (replicate n 0) (g, a, c) = (g, a, c)"
  by (induction n) (simp_all add: byteVal_zero)

lemma flatnessOf_zero: "flatnessOf (replicate n 0) = 0"
  by (simp add: flatnessOf_def flatnessLoop_zero)

lemma rolloffLoop_zero: "rolloffLoop 0 N (replicate n 0) i 0 = 0"
  by (induction n arbitrary: i) (simp_all add: byteVal_zero ratioReaches_def)

lemma energyOf_zero: "0 \<le> nf \<Longrightarrow> energyOf (replicate n 0) nf g = 0"
  by (simp add: energyOf_def sumLoop_zero)

lemma extract_zero:
  "0 \<le> nf \<Longrightarrow> extractAudioFeatures (replicate n 0) nf g =
     \<lparr> energy = 0, spectralCentroid = 0, spectralFlatness = 0, spectralRolloff = 0, rms = 0, zcr = 0 \<rparr>"
  by (simp add: extractAudioFeatures_def energyOf_zero sumLoop_zero rmsLoop_zero centroidLoop_zero
      flatnessOf_zero rolloffLoop_zero zcrCount_zero)

text \<open>
  C7. For a non-empty all-zero frame and a non-negative noise floor, all six features
  are 0, and \<open>detectMood\<close> reports the current mood and leaves the classifier state
  as it was.
\<close>

theorem silent_frame:
  assumes "0 < n" and "0 \<le> nf"
  shows "extractAudioFeatures (replicate n 0) nf g =
           \<lparr> energy = 0, spectralCentroid = 0, spectralFlatness = 0, spectralRolloff = 0,
             rms = 0, zcr = 0 \<rparr>
         \<and> detectMood (extractAudioFeatures (replicate n 0) nf g) now s = ((currentMood s, 1), s)"
  using assms by (simp add: extract_zero detectMood_def detectedMood_def)

theorem silent_frame_witness:
  "(0::nat) < 4 \<and> (0::real) \<le> 0.03
   \<and> extractAudioFeatures (replicate 4 0) 0.03 0.8 =
           \<lparr> energy = 0, spectralCentroid = 0, spectralFlatness = 0, spectralRolloff = 0,
             rms = 0, zcr = 0 \<rparr>
   \<and> detectMood (extractAudioFeatures (replicate 4 0) 0.03 0.8) 1000
         ((newService 0.8)\<lparr>currentMood := happy\<rparr>)
       = ((happy, 1), (newService 0.8)\<lparr>currentMood := happy\<rparr>)"
proof -
  have a: "(0::nat) < 4" by simp
  have b: "(0::real) \<le> 0.03" by simp
  have c: "currentMood ((newService 0.8)\<lparr>currentMood := happy\<rparr>) = happy" by simp
  note t = silent_frame [OF a b, of "0.8" 1000 "(newService 0.8)\<lparr>currentMood := happy\<rparr>"]
  have d: "detectMood (extractAudioFeatures (replicate 4 0) 0.03 0.8) 1000
         ((newService 0.8)\<lparr>currentMood := happy\<rparr>)
       = ((happy, 1), (newService 0.8)\<lparr>currentMood := happy\<rparr>)"
    using t [THEN conjunct2] by (simp only: c)
  show ?thesis
    by (intro conjI a b d t [THEN conjunct1])
qed

subsection \<open>Spectral rolloff\<close>

lemma rolloffLoop_none:
  "(\<forall>k<length ds. \<not> ratioReaches (c + sum_list (map byteVal (take (Suc k) ds))) t 0.85)
   \<Longrightarrow> rolloffLoop t N ds i c = 0"
proof (induction ds arbitrary: i c)
  case Nil
  show ?case by simp
next
  case (Cons d ds)
  have first: "\<not> ratioReaches (c + byteVal d) t 0.85"
    using Cons.prems [rule_format, of 0] by simp
  have rest: "\<forall>k<length ds. \<not> ratioReaches ((c + byteVal d) + sum_list (map byteVal (take (Suc k) ds))) t 0.85"
  proof (intro allI impI)
    fix k assume "k < length ds"
    then show "\<not> ratioReaches ((c + byteVal d) + sum_list (map byteVal (take (Suc k) ds))) t 0.85"
      using Cons.prems [rule_format, of "Suc k"] by (simp add: add.assoc)
  qed
  show ?case
    using first Cons.IH [OF rest] by (simp add: Let_def)
qed

lemma rolloffLoop_first:
  "k < length ds
   \<Longrightarrow> ratioReaches (c + sum_list (map byteVal (take (Suc k) ds))) t 0.85
   \<Longrightarrow> (\<forall>j<k. \<not> ratioReaches (c + sum_list (map byteVal (take (Suc j) ds))) t 0.85)
   \<Longrightarrow> rolloffLoop t N ds i c = real (i + k) / real N"
proof (induction ds arbitrary: i c k)
  case Nil
  then show ?case by simp
next
  case (Cons d ds)
  show ?case
  proof (cases k)
    case 0
    with Cons.prems show ?thesis by (simp add: Let_def)
  next
    case (Suc k')
    have first: "\<not> ratioReaches (c + byteVal d) t 0.85"
      using Cons.prems(3) [rule_format, of 0] Suc by simp
    have len: "k' < length ds"
      using Cons.prems(1) Suc by simp
    have hit: "ratioReaches ((c + byteVal d) + sum_list (map byteVal (take (Suc k') ds))) t 0.85"
      using Cons.prems(2) Suc by (simp add: add.assoc)
    have before: "\<forall>j<k'. \<not> ratioReaches ((c + byteVal d) + sum_list (map byteVal (take (Suc j) ds))) t 0.85"
    proof (intro allI impI)
      fix j assume "j < k'"
      then show "\<not> ratioReaches ((c + byteVal d) + sum_list (map byteVal (take (Suc j) ds))) t 0.85"
        using Cons.prems(3) [rule_format, of "Suc j"] Suc by (simp add: add.assoc)
    qed
    have "rolloffLoop t N ds (Suc i) (c + byteVal d) = real (Suc i + k') / real N"
      by (rule Cons.IH [OF len hit before])
    then show ?thesis
      using first Suc by (simp add: Let_def)
  qed
qed

lemma sum_take_le: "sum_list (map byteVal (take k ds)) \<le> sum_list (map byteVal ds)"
proof -
  have "sum_list (map byteVal ds)
          = sum_list (map byteVal (take k ds)) + sum_list (map byteVal (drop k ds))"
    by (metis append_take_drop_id map_append sum_list.append)
  moreover have "0 \<le> sum_list (map byteVal (drop k ds))"
    by (rule sum_list_nonneg) (auto simp: byteVal_nonneg)
  ultimately show ?thesis by simp
qed

lemma sum_take_nonneg: "0 \<le> sum_list (map byteVal (take k ds))"
  by (rule sum_list_nonneg) (auto simp: byteVal_nonneg)

lemma spectralRolloff_eq:
  "spectralRolloff (extractAudioFeatures ds nf g)
     = rolloffLoop (totalMagnitude ds) (length ds) ds 0 0"
  by (simp add: extractAudioFeatures_def Let_def sumLoop_sum_list totalMagnitude_def split: prod.splits)

text \<open>
  C5. When the total raw magnitude is 0 the rolloff is 0; otherwise it is \<open>k / N\<close> for
  the smallest bin index \<open>k\<close> whose cumulative raw magnitude (bins 0 to \<open>k\<close>) reaches
  85% of the total.
\<close>

theorem rolloff_index:
  "(totalMagnitude dataArray = 0 \<longrightarrow>
      spectralRolloff (extractAudioFeatures dataArray nf g) = 0)
   \<and> (totalMagnitude dataArray \<noteq> 0 \<longrightarrow>
      (\<exists>k<length dataArray.
         spectralRolloff (extractAudioFeatures dataArray nf g) = real k / real (length dataArray)
         \<and> 0.85 * totalMagnitude dataArray \<le> cumulativeMagnitude dataArray k
         \<and> (\<forall>j<k. cumulativeMagnitude dataArray j < 0.85 * totalMagnitude dataArray)))"
proof (intro conjI impI)
  assume z: "totalMagnitude dataArray = 0"
  have "\<forall>k<length dataArray.
          \<not> ratioReaches (0 + sum_list (map byteVal (take (Suc k) dataArray))) (totalMagnitude dataArray) 0.85"
  proof (intro allI impI)
    fix k
    have "sum_list (map byteVal (take (Suc k) dataArray)) \<le> 0"
      using sum_take_le [of "Suc k" dataArray] z by (simp add: totalMagnitude_def)
    then have "sum_list (map byteVal (take (Suc k) dataArray)) = 0"
      using sum_take_nonneg [of "Suc k" dataArray] by linarith
    then show "\<not> ratioReaches (0 + sum_list (map byteVal (take (Suc k) dataArray))) (totalMagnitude dataArray) 0.85"
      by (simp add: ratioReaches_def z)
  qed
  then show "spectralRolloff (extractAudioFeatures dataArray nf g) = 0"
    by (simp only: spectralRolloff_eq rolloffLoop_none)
next
  assume nz: "totalMagnitude dataArray \<noteq> 0"
  let ?t = "totalMagnitude dataArray"
  let ?P = "\<lambda>k. k < length dataArray \<and> ratioReaches (0 + cumulativeMagnitude dataArray k) ?t 0.85"
  have pos: "0 < ?t"
    using nz sum_take_nonneg [of "length dataArray" dataArray] by (simp add: totalMagnitude_def)
  have ne: "dataArray \<noteq> []"
    using nz by (auto simp: totalMagnitude_def)
  have reach_iff: "ratioReaches (0 + c) ?t 0.85 \<longleftrightarrow> 0.85 * ?t \<le> c" for c
    using pos by (simp add: ratioReaches_def pos_le_divide_eq)
  have last: "?P (length dataArray - 1)"
    using ne pos by (simp add: cumulativeMagnitude_def totalMagnitude_def ratioReaches_def)
  define k where "k = (LEAST k. ?P k)"
  have Pk: "?P k"
    unfolding k_def using last by (rule LeastI)
  have least: "\<not> ?P j" if "j < k" for j
    using that not_less_Least unfolding k_def by blast
  have before: "\<forall>j<k. \<not> ratioReaches (0 + sum_list (map byteVal (take (Suc j) dataArray))) ?t 0.85"
  proof (intro allI impI)
    fix j assume jk: "j < k"
    then have "j < length dataArray" using Pk by simp
    then show "\<not> ratioReaches (0 + sum_list (map byteVal (take (Suc j) dataArray))) ?t 0.85"
      using least [OF jk] by (simp add: cumulativeMagnitude_def)
  qed
  have "rolloffLoop ?t (length dataArray) dataArray 0 0 = real (0 + k) / real (length dataArray)"
    using Pk before by (intro rolloffLoop_first) (simp_all add: cumulativeMagnitude_def)
  then have r: "spectralRolloff (extractAudioFeatures dataArray nf g) = real k / real (length dataArray)"
    by (simp add: spectralRolloff_eq)
  have hit: "0.85 * ?t \<le> cumulativeMagnitude dataArray k"
    using Pk reach_iff by simp
  have miss: "\<forall>j<k. cumulativeMagnitude dataArray j < 0.85 * ?t"
  proof (intro allI impI)
    fix j assume jk: "j < k"
    then have "j < length dataArray" using Pk by simp
    then have "\<not> ratioReaches (0 + cumulativeMagnitude dataArray j) ?t 0.85"
      using least [OF jk] by simp
    then show "cumulativeMagnitude dataArray j < 0.85 * ?t"
      using reach_iff by (simp add: not_le)
  qed
  show "\<exists>k<length dataArray.
         spectralRolloff (extractAudioFeatures dataArray nf g) = real k / real (length dataArray)
         \<and> 0.85 * totalMagnitude dataArray \<le> cumulativeMagnitude dataArray k
         \<and> (\<forall>j<k. cumulativeMagnitude dataArray j < 0.85 * totalMagnitude dataArray)"
    using Pk r hit miss by blast
qed

theorem rolloff_index_witness:
  "totalMagnitude [0, 0] = 0
   \<and> spectralRolloff (extractAudioFeatures [0, 0] 0.03 1) = 0
   \<and> totalMagnitude [10, 80, 10] \<noteq> 0
   \<and> spectralRolloff (extractAudioFeatures [10, 80, 10] 0.03 1) = 1 / 3"
proof -
  have z: "totalMagnitude [0, 0] = 0"
    by (simp add: totalMagnitude_def byteVal_def)
  have t: "totalMagnitude [10, 80, 10] = 100"
    by (simp add: totalMagnitude_def byteVal_def)
  have nz: "totalMagnitude [10, 80, 10] \<noteq> 0"
    by (simp add: t)
  have c0: "cumulativeMagnitude [10, 80, 10] 0 = 10"
    and c1: "cumulativeMagnitude [10, 80, 10] (Suc 0) = 90"
    by (simp_all add: cumulativeMagnitude_def byteVal_def)
  have r0: "spectralRolloff (extractAudioFeatures [0, 0] 0.03 1) = 0"
    using rolloff_index [of "[0, 0]" "0.03" 1] z by blast
  obtain k where k: "k < length [10, 80, 10 :: byte]"
    and r: "spectralRolloff (extractAudioFeatures [10, 80, 10] 0.03 1)
              = real k / real (length [10, 80, 10 :: byte])"
    and hit: "0.85 * totalMagnitude [10, 80, 10] \<le> cumulativeMagnitude [10, 80, 10] k"
    and miss: "\<forall>j<k. cumulativeMagnitude [10, 80, 10] j < 0.85 * totalMagnitude [10, 80, 10]"
    using rolloff_index [of "[10, 80, 10]" "0.03" 1] nz by blast
  have "k = 0 \<or> k = 1 \<or> k = 2"
    using k by auto
  then have "k = 1"
  proof (elim disjE)
    assume "k = 0"
    then show ?thesis using hit by (simp add: t c0)
  next
    assume "k = 1"
    then show ?thesis .
  next
    assume "k = 2"
    then show ?thesis using miss [rule_format, of 1] by (simp add: t c1)
  qed
  then have r1: "spectralRolloff (extractAudioFeatures [10, 80, 10] 0.03 1) = 1 / 3"
    using r by simp
  show ?thesis
    by (intro conjI z r0 nz r1)
qed

subsection \<open>Dominant frequency\<close>

lemma maxLoop_spec:
  "maxLoop ds i (mi, mv) = (ri, rv) \<Longrightarrow>
     mv \<le> rv \<and> (\<forall>d\<in>set ds. unat d \<le> rv)
     \<and> (rv = mv \<longrightarrow> ri = mi)
     \<and> (mv < rv \<longrightarrow> i \<le> ri \<and> ri < i + length ds \<and> unat (ds ! (ri - i)) = rv
            \<and> (\<forall>j<ri - i. unat (ds ! j) < rv))"
proof (induction ds arbitrary: i mi mv)
  case Nil
  then show ?case by simp
next
  case (Cons d ds)
  show ?case
  proof (cases "mv < unat d")
    case True
    then have run: "maxLoop ds (Suc i) (i, unat d) = (ri, rv)"
      using Cons.prems by simp
    note ih = Cons.IH [OF run]
    have le: "unat d \<le> rv" using ih by simp
    have all: "\<forall>x\<in>set (d # ds). unat x \<le> rv" using ih by simp
    have pos: "i \<le> ri \<and> ri < i + length (d # ds) \<and> unat ((d # ds) ! (ri - i)) = rv
            \<and> (\<forall>j<ri - i. unat ((d # ds) ! j) < rv)"
    proof (cases "rv = unat d")
      case True
      then have "ri = i" using ih by simp
      then show ?thesis using True by simp
    next
      case False
      then have lt: "unat d < rv" using le by simp
      then have a: "Suc i \<le> ri" and b: "ri < Suc i + length ds"
        and c: "unat (ds ! (ri - Suc i)) = rv" and e: "\<forall>j<ri - Suc i. unat (ds ! j) < rv"
        using ih by simp_all
      have "unat ((d # ds) ! j) < rv" if "j < ri - i" for j
      proof (cases j)
        case 0
        then show ?thesis using lt by simp
      next
        case (Suc j')
        then have "j' < ri - Suc i" using that by simp
        then show ?thesis using e Suc by simp
      qed
      moreover have "(d # ds) ! (ri - i) = ds ! (ri - Suc i)"
        using a by (simp add: nth_Cons')
      ultimately show ?thesis using a b c by simp
    qed
    show ?thesis using True le all pos by simp
  next
    case False
    then have run: "maxLoop ds (Suc i) (mi, mv) = (ri, rv)"
      using Cons.prems by simp
    note ih = Cons.IH [OF run]
    have all: "\<forall>x\<in>set (d # ds). unat x \<le> rv" using ih False by simp
    have pos: "i \<le> ri \<and> ri < i + length (d # ds) \<and> unat ((d # ds) ! (ri - i)) = rv
            \<and> (\<forall>j<ri - i. unat ((d # ds) ! j) < rv)" if lt: "mv < rv"
    proof -
      have a: "Suc i \<le> ri" and b: "ri < Suc i + length ds"
        and c: "unat (ds ! (ri - Suc i)) = rv" and e: "\<forall>j<ri - Suc i. unat (ds ! j) < rv"
        using ih lt by simp_all
      have "unat ((d # ds) ! j) < rv" if "j < ri - i" for j
      proof (cases j)
        case 0
        then show ?thesis using lt False by simp
      next
        case (Suc j')
        then have "j' < ri - Suc i" using that by simp
        then show ?thesis using e Suc by simp
      qed
      moreover have "(d # ds) ! (ri - i) = ds ! (ri - Suc i)"
        using a by (simp add: nth_Cons')
      ultimately show ?thesis using a b c by simp
    qed
    show ?thesis using ih all pos by simp
  qed
qed

lemma maxLoop_lowest:
  assumes "dataArray \<noteq> []"
  shows "\<exists>k<length dataArray. fst (maxLoop dataArray 0 (0, 0)) = k
           \<and> (\<forall>j<length dataArray. unat (dataArray ! j) \<le> unat (dataArray ! k))
           \<and> (\<forall>j<k. unat (dataArray ! j) < unat (dataArray ! k))"
proof -
  obtain ri rv where run: "maxLoop dataArray 0 (0, 0) = (ri, rv)"
    by (cases "maxLoop dataArray 0 (0, 0)")
  note sp = maxLoop_spec [OF run]
  have all: "\<forall>j<length dataArray. unat (dataArray ! j) \<le> rv"
    using sp by simp
  show ?thesis
  proof (cases "rv = 0")
    case True
    then have "ri = 0" using sp by simp
    moreover have "\<forall>j<length dataArray. unat (dataArray ! j) \<le> unat (dataArray ! 0)"
      using all True by simp
    ultimately show ?thesis using assms run by simp
  next
    case False
    then have "0 < rv" by simp
    then have "ri < length dataArray" and "unat (dataArray ! ri) = rv"
      and "\<forall>j<ri. unat (dataArray ! j) < rv"
      using sp by simp_all
    then show ?thesis using all run by simp
  qed
qed

lemma length_getByteFrequencyData: "length (getByteFrequencyData a n) = n"
  by (simp add: getByteFrequencyData_def)

text \<open>
  C6. Without an analyser the dominant frequency is 0. With an analyser holding a
  non-empty frame (and a context with a non-zero sample rate) it is
  \<open>k * sampleRate / (fftSize * 2)\<close>, where \<open>k\<close> is the lowest bin index attaining the
  maximum magnitude; the refactored copy of the function computes the same value.
\<close>

theorem dominant_frequency:
  "(analyzer s = None \<longrightarrow>
      calculateDominantFrequency s = 0 \<and> calculateDominantFrequencyGuarded s = 0)
   \<and> (analyzer s = Some a \<and> audioContext s = Some c \<and> sampleRate c \<noteq> 0
        \<and> 0 < frequencyBinCount a
        \<and> dataArray = getByteFrequencyData a (frequencyBinCount a) \<longrightarrow>
      (\<exists>k<length dataArray.
          calculateDominantFrequency s = (real k * sampleRate c) / (real (fftSize a) * 2)
          \<and> calculateDominantFrequencyGuarded s = calculateDominantFrequency s
          \<and> (\<forall>j<length dataArray. unat (dataArray ! j) \<le> unat (dataArray ! k))
          \<and> (\<forall>j<k. unat (dataArray ! j) < unat (dataArray ! k))))"
proof (intro conjI impI)
  assume "analyzer s = None"
  then show "calculateDominantFrequency s = 0" and "calculateDominantFrequencyGuarded s = 0"
    by (simp_all add: calculateDominantFrequency_def calculateDominantFrequencyGuarded_def)
next
  assume h: "analyzer s = Some a \<and> audioContext s = Some c \<and> sampleRate c \<noteq> 0
        \<and> 0 < frequencyBinCount a
        \<and> dataArray = getByteFrequencyData a (frequencyBinCount a)"
  then have ne: "dataArray \<noteq> []"
    using length_getByteFrequencyData [of a "frequencyBinCount a"] by auto
  obtain k where k: "k < length dataArray" "fst (maxLoop dataArray 0 (0, 0)) = k"
    "\<forall>j<length dataArray. unat (dataArray ! j) \<le> unat (dataArray ! k)"
    "\<forall>j<k. unat (dataArray ! j) < unat (dataArray ! k)"
    using maxLoop_lowest [OF ne] by blast
  have f: "calculateDominantFrequency s = (real k * sampleRate c) / (real (fftSize a) * 2)"
    using h k(2) by (simp add: calculateDominantFrequency_def Let_def case_prod_beta)
  have g: "calculateDominantFrequencyGuarded s = calculateDominantFrequency s"
    using h by (simp add: calculateDominantFrequency_def calculateDominantFrequencyGuarded_def
        Let_def case_prod_beta)
  show "\<exists>k<length dataArray.
          calculateDominantFrequency s = (real k * sampleRate c) / (real (fftSize a) * 2)
          \<and> calculateDominantFrequencyGuarded s = calculateDominantFrequency s
          \<and> (\<forall>j<length dataArray. unat (dataArray ! j) \<le> unat (dataArray ! k))
          \<and> (\<forall>j<k. unat (dataArray ! j) < unat (dataArray ! k))"
    using k f g by blast
qed

theorem dominant_frequency_witness:
  "analyzer (newService 1) = None
   \<and> calculateDominantFrequency (newService 1) = 0
   \<and> analyzer ((newService 1)
         \<lparr> audioContext := Some \<lparr> sampleRate = 48000, contextClosed = False \<rparr>,
           analyzer := Some \<lparr> fftSize = 8, frequencyData = [3, 9, 9, 1] \<rparr> \<rparr>)
       = Some \<lparr> fftSize = 8, frequencyData = [3, 9, 9, 1] \<rparr>
   \<and> audioContext ((newService 1)
         \<lparr> audioContext := Some \<lparr> sampleRate = 48000, contextClosed = False \<rparr>,
           analyzer := Some \<lparr> fftSize = 8, frequencyData = [3, 9, 9, 1] \<rparr> \<rparr>)
       = Some \<lparr> sampleRate = 48000, contextClosed = False \<rparr>
   \<and> sampleRate \<lparr> sampleRate = 48000, contextClosed = False \<rparr> \<noteq> 0
   \<and> 0 < frequencyBinCount \<lparr> fftSize = 8, frequencyData = [3, 9, 9, 1] \<rparr>
   \<and> [3, 9, 9, 1] = getByteFrequencyData \<lparr> fftSize = 8, frequencyData = [3, 9, 9, 1] \<rparr>
         (frequencyBinCount \<lparr> fftSize = 8, frequencyData = [3, 9, 9, 1] \<rparr>)
   \<and> calculateDominantFrequency ((newService 1)
         \<lparr> audioContext := Some \<lparr> sampleRate = 48000, contextClosed = False \<rparr>,
           analyzer := Some \<lparr> fftSize = 8, frequencyData = [3, 9, 9, 1] \<rparr> \<rparr>) = 3000
   \<and> calculateDominantFrequencyGuarded ((newService 1)
         \<lparr> audioContext := Some \<lparr> sampleRate = 48000, contextClosed = False \<rparr>,
           analyzer := Some \<lparr> fftSize = 8, frequencyData = [3, 9, 9, 1] \<rparr> \<rparr>) = 3000"
proof -
  let ?c = "\<lparr> sampleRate = 48000, contextClosed = False \<rparr>"
  let ?a = "\<lparr> fftSize = 8, frequencyData = [3, 9, 9, 1] \<rparr>"
  let ?s = "(newService 1) \<lparr> audioContext := Some ?c, analyzer := Some ?a \<rparr>"
  let ?d = "[3, 9, 9, 1 :: byte]"
  have n: "analyzer (newService 1) = None"
    by (simp add: newService_def)
  have h1: "analyzer ?s = Some ?a" and h2: "audioContext ?s = Some ?c" and h3: "sampleRate ?c \<noteq> 0"
    by simp_all
  have h4: "0 < frequencyBinCount ?a"
    by (simp add: frequencyBinCount_def)
  have h5: "?d = getByteFrequencyData ?a (frequencyBinCount ?a)"
    by (simp add: frequencyBinCount_def getByteFrequencyData_def)
  have z: "calculateDominantFrequency (newService 1) = 0"
    using dominant_frequency [of "newService 1" ?a ?c "[]"] n by blast
  obtain k where k: "k < length ?d"
    and f: "calculateDominantFrequency ?s = (real k * sampleRate ?c) / (real (fftSize ?a) * 2)"
    and g: "calculateDominantFrequencyGuarded ?s = calculateDominantFrequency ?s"
    and mx: "\<forall>j<length ?d. unat (?d ! j) \<le> unat (?d ! k)"
    and fs: "\<forall>j<k. unat (?d ! j) < unat (?d ! k)"
    using dominant_frequency [of ?s ?a ?c ?d] h1 h2 h3 h4 h5 by blast
  have "k = 0 \<or> k = 1 \<or> k = 2 \<or> k = 3"
    using k by auto
  then have "k = 1"
  proof (elim disjE)
    assume "k = 0"
    then show ?thesis using mx [rule_format, of 1] by simp
  next
    assume "k = 1"
    then show ?thesis .
  next
    assume "k = 2"
    then show ?thesis using fs [rule_format, of 1] by simp
  next
    assume "k = 3"
    then show ?thesis using mx [rule_format, of 1] by simp
  qed
  then have v: "calculateDominantFrequency ?s = 3000"
    using f by simp
  then have w: "calculateDominantFrequencyGuarded ?s = 3000"
    using g by simp
  show ?thesis
    by (intro conjI n z h1 h2 h3 h4 h5 v w)
qed

subsection \<open>Spectral flatness\<close>

lemma flatnessLoop_sums:
  "flatnessLoop ds (g, a, c) =
     (g + sum_list (map ln (qualifying ds)), a + sum_list (qualifying ds), c + length (qualifying ds))"
  by (induction ds arbitrary: g a c) (simp_all add: qualifying_def normalised_def Let_def)

lemma qualifying_pos: "q \<in> set (qualifying ds) \<Longrightarrow> 0 < q"
  by (auto simp: qualifying_def)

lemma ln_tangent:
  fixes A q :: real
  assumes "0 < A" and "0 < q"
  shows "ln q \<le> ln A - 1 + q / A"
proof -
  have "0 < q / A"
    using assms by simp
  then have "ln (q / A) \<le> q / A - 1"
    by (rule ln_le_minus_one)
  then show ?thesis
    using assms by (simp add: ln_divide_pos)
qed

lemma sum_ln_bound:
  fixes A :: real
  assumes "0 < A" and "\<forall>q\<in>set qs. 0 < q"
  shows "sum_list (map ln qs) \<le> real (length qs) * (ln A - 1) + sum_list qs / A"
  using assms(2)
proof (induction qs)
  case Nil
  show ?case by simp
next
  case (Cons q qs)
  have "0 < q"
    using Cons.prems by simp
  then have "ln q \<le> ln A - 1 + q / A"
    by (rule ln_tangent [OF assms(1)])
  moreover have "sum_list (map ln qs) \<le> real (length qs) * (ln A - 1) + sum_list qs / A"
    using Cons by simp
  ultimately show ?case
    by (simp add: algebra_simps add_divide_distrib)
qed

lemma sum_list_pos_nonempty:
  assumes "qs \<noteq> []" and "\<forall>q\<in>set qs. (0::real) < q"
  shows "0 < sum_list qs"
proof (cases qs)
  case Nil
  with assms show ?thesis by simp
next
  case (Cons q rest)
  have "0 \<le> sum_list rest"
    using assms(2) Cons by (intro sum_list_nonneg) (simp add: less_imp_le)
  moreover have "0 < q" using assms(2) Cons by simp
  ultimately show ?thesis using Cons by simp
qed

lemma geometric_le_arithmetic:
  assumes "qs \<noteq> []" and "\<forall>q\<in>set qs. (0::real) < q"
  shows "exp (mean (map ln qs)) \<le> mean qs"
proof -
  let ?n = "real (length qs)"
  have n: "0 < ?n" using assms(1) by simp
  have A: "0 < mean qs"
    using sum_list_pos_nonempty [OF assms] n by (simp add: mean_def)
  have "sum_list (map ln qs) \<le> ?n * (ln (mean qs) - 1) + sum_list qs / mean qs"
    by (rule sum_ln_bound [OF A assms(2)])
  also have "sum_list qs / mean qs = ?n"
    using n sum_list_pos_nonempty [OF assms] by (simp add: mean_def)
  finally have "sum_list (map ln qs) \<le> ?n * ln (mean qs)"
    by (simp add: algebra_simps)
  then have "mean (map ln qs) \<le> ln (mean qs)"
    using n by (simp add: mean_def pos_divide_le_eq mult.commute)
  then have "exp (mean (map ln qs)) \<le> exp (ln (mean qs))"
    by simp
  then show ?thesis using A by simp
qed

lemma flatnessOf_eq:
  "flatnessOf ds =
     (if qualifying ds = [] then 0
      else exp (mean (map ln (qualifying ds))) / mean (qualifying ds))"
proof (cases "qualifying ds = []")
  case True
  then show ?thesis by (simp add: flatnessOf_def flatnessLoop_sums)
next
  case False
  have pos: "\<forall>q\<in>set (qualifying ds). 0 < q"
    using qualifying_pos by blast
  have "0 < sum_list (qualifying ds)"
    by (rule sum_list_pos_nonempty [OF False pos])
  then have "0 < sum_list (qualifying ds) / real (length (qualifying ds))"
    using False by simp
  then show ?thesis
    using False by (simp add: flatnessOf_def flatnessLoop_sums mean_def Let_def)
qed

text \<open>
  In exact arithmetic the flatness is the quotient of the geometric and the arithmetic
  mean of the qualifying magnitudes (0 when there is none) and lies between 0 and 1.
  The rounding of \<open>Math.log\<close>, \<open>Math.exp\<close> and of the sums in double precision is
  outside this model.
\<close>

theorem flatness_exact_range:
  "0 \<le> spectralFlatness (extractAudioFeatures dataArray nf g)
   \<and> spectralFlatness (extractAudioFeatures dataArray nf g) \<le> 1
   \<and> spectralFlatness (extractAudioFeatures dataArray nf g)
       = (if qualifying dataArray = [] then 0
          else exp (mean (map ln (qualifying dataArray))) / mean (qualifying dataArray))"
proof -
  have sf: "spectralFlatness (extractAudioFeatures dataArray nf g) = flatnessOf dataArray"
    by (simp add: extractAudioFeatures_def Let_def split: prod.splits)
  have pos: "\<forall>q\<in>set (qualifying dataArray). 0 < q"
    using qualifying_pos by blast
  show ?thesis
  proof (cases "qualifying dataArray = []")
    case True
    then show ?thesis by (simp add: sf flatnessOf_eq)
  next
    case False
    have le: "exp (mean (map ln (qualifying dataArray))) \<le> mean (qualifying dataArray)"
      by (rule geometric_le_arithmetic [OF False pos])
    have e: "0 < exp (mean (map ln (qualifying dataArray)))"
      by simp
    have m: "0 < mean (qualifying dataArray)"
      using e le by linarith
    have "exp (mean (map ln (qualifying dataArray))) / mean (qualifying dataArray) \<le> 1"
      using le m by simp
    moreover have "0 \<le> exp (mean (map ln (qualifying dataArray))) / mean (qualifying dataArray)"
      using m by simp
    ultimately show ?thesis
      using False by (simp add: sf flatnessOf_eq)
  qed
qed

subsection \<open>Subscribing and unsubscribing\<close>

text \<open>
  C8. \<open>subscribe\<close> appends the callback and returns a handle which, invoked on any
  state of the registry, removes that callback and nothing else (the other callbacks
  keep their registrations and their order, the other fields are untouched); invoking
  it again changes nothing; for a callback that was not registered before, invoking
  the handle right after subscribing restores the service as it was.
\<close>

theorem unsubscribe_idempotent:
  assumes "subscribe callback s = (s', handle)"
  shows "listeners s' = listeners s @ [callback]
     \<and> handle t = t\<lparr>listeners := filter (\<lambda>listener. listener \<noteq> callback) (listeners t)\<rparr>
     \<and> set (listeners (handle t)) = set (listeners t) - {callback}
     \<and> filter (\<lambda>listener. listener \<noteq> callback) (listeners (handle t))
         = filter (\<lambda>listener. listener \<noteq> callback) (listeners t)
     \<and> handle (handle t) = handle t
     \<and> (callback \<notin> set (listeners s) \<longrightarrow> handle s' = s)"
proof -
  have s': "s' = s\<lparr>listeners := listeners s @ [callback]\<rparr>" and h: "handle = unsubscribe callback"
    using assms by (simp_all add: subscribe_def)
  have "filter (\<lambda>listener. listener \<noteq> callback) (listeners s) = listeners s"
    if "callback \<notin> set (listeners s)"
    using that by (auto simp add: filter_id_conv)
  then show ?thesis
    by (auto simp add: s' h unsubscribe_def)
qed

theorem unsubscribe_idempotent_witness:
  "subscribe 3 ((newService 0.8)\<lparr>listeners := [1, 2]\<rparr>)
     = ((newService 0.8)\<lparr>listeners := [1, 2, 3]\<rparr>, unsubscribe 3)
   \<and> 3 \<notin> set (listeners ((newService 0.8)\<lparr>listeners := [1, 2]\<rparr>))
   \<and> unsubscribe 3 ((newService 0.8)\<lparr>listeners := [1, 2, 3]\<rparr>)
       = (newService 0.8)\<lparr>listeners := [1, 2]\<rparr>
   \<and> listeners (unsubscribe 3 ((newService 0.8)\<lparr>listeners := [1, 2, 3]\<rparr>)) = [1, 2]
   \<and> unsubscribe 3 (unsubscribe 3 ((newService 0.8)\<lparr>listeners := [1, 2, 3]\<rparr>))
       = unsubscribe 3 ((newService 0.8)\<lparr>listeners := [1, 2, 3]\<rparr>)"
proof -
  have a: "subscribe 3 ((newService 0.8)\<lparr>listeners := [1, 2]\<rparr>)
     = ((newService 0.8)\<lparr>listeners := [1, 2, 3]\<rparr>, unsubscribe 3)"
    by (simp add: subscribe_def)
  note t = unsubscribe_idempotent [OF a, of "(newService 0.8)\<lparr>listeners := [1, 2, 3]\<rparr>"]
  have b: "listeners (unsubscribe 3 ((newService 0.8)\<lparr>listeners := [1, 2, 3]\<rparr>)) = [1, 2]"
    using t by simp
  have c: "3 \<notin> set (listeners ((newService 0.8)\<lparr>listeners := [1, 2]\<rparr>))"
    by simp
  show ?thesis
    using a b c t by blast
qed

subsection \<open>Publishing to subscribers\<close>






lemma analyzeAudio_running:
  assumes "isInitialized (service r)" and "analyzer (service r) = Some a"
    and "analyzeFrame now (service r) a = (result, s)"
  shows "analyzeAudio run now r =
          \<lparr> service = s, framePending = \<not> snd (notifyListeners run result s),
            received = received r @ map (\<lambda>listener. (listener, result)) (fst (notifyListeners run result s)) \<rparr>"
  using assms by (simp add: analyzeAudio_def split: prod.splits)







subsection \<open>Stopping\<close>

lemma stop_idempotent: "stop (stop s) = stop s"
  by (simp add: stop_def option.map_comp comp_def)

lemma analyzeAudio_stopped:
  "\<not> isInitialized (service r) \<Longrightarrow> analyzeAudio run now r = r\<lparr>framePending := False\<rparr>"
  by (simp add: analyzeAudio_def)

lemma step_stopped:
  assumes "\<not> isInitialized (service r)"
  shows "received (step run r ev) = received r \<and> \<not> isInitialized (service (step run r ev))"
proof (cases ev)
  case (Frame spectrum now)
  then show ?thesis
    using assms by (simp add: analyzeAudio_stopped)
next
  case Stop
  then show ?thesis by (simp add: stop_def)
qed

lemma runEvents_stopped:
  "\<not> isInitialized (service r) \<Longrightarrow>
     received (runEvents run r evs) = received r
     \<and> \<not> isInitialized (service (runEvents run r evs))"
proof (induction evs arbitrary: r)
  case Nil
  then show ?case by (simp add: runEvents_def)
next
  case (Cons ev evs)
  have st: "received (step run r ev) = received r" "\<not> isInitialized (service (step run r ev))"
    using step_stopped [OF Cons.prems] by simp_all
  have "received (runEvents run (step run r ev) evs) = received (step run r ev)
     \<and> \<not> isInitialized (service (runEvents run (step run r ev) evs))"
    by (rule Cons.IH [OF st(2)])
  then show ?case
    using st(1) by (simp add: runEvents_def)
qed

lemma runClosure_stopped:
  "\<not> isInitialized (serviceState z) \<Longrightarrow> runClosure run now z = (z, False)"
  by (simp add: runClosure_def analyzeAudio_stopped)

lemma runPendingFrames_stopped:
  "\<not> isInitialized (serviceState z) \<Longrightarrow>
     runPendingFrames run now n requested z = z\<lparr>pendingFrames := requested\<rparr>"
  by (induction n) (simp_all add: runClosure_stopped)

lemma lifecycleStep_stopped:
  assumes "\<not> isInitialized (serviceState z)" and "\<not> acquires ev"
  shows "published (lifecycleStep run z ev) = published z
         \<and> \<not> isInitialized (serviceState (lifecycleStep run z ev))"
proof (cases ev)
  case (AnimationFrame spectrum now)
  then show ?thesis
    using assms(1) by (simp add: runPendingFrames_stopped)
next
  case StopCalled
  then show ?thesis by (simp add: stop_def)
qed (use assms in simp_all)

lemma runLifecycle_stopped:
  "\<not> isInitialized (serviceState z) \<Longrightarrow> noAcquisition evs \<Longrightarrow>
     published (runLifecycle run z evs) = published z
     \<and> \<not> isInitialized (serviceState (runLifecycle run z evs))"
proof (induction evs arbitrary: z)
  case Nil
  then show ?case by (simp add: runLifecycle_def)
next
  case (Cons ev evs)
  have ev: "\<not> acquires ev" and rest: "noAcquisition evs"
    using Cons.prems(2) by simp_all
  have st: "published (lifecycleStep run z ev) = published z"
    "\<not> isInitialized (serviceState (lifecycleStep run z ev))"
    using lifecycleStep_stopped [OF Cons.prems(1) ev] by simp_all
  have "published (runLifecycle run (lifecycleStep run z ev) evs) = published (lifecycleStep run z ev)
     \<and> \<not> isInitialized (serviceState (runLifecycle run (lifecycleStep run z ev) evs))"
    by (rule Cons.IH [OF st(2) rest])
  then show ?case
    using st(1) by (simp add: runLifecycle_def)
qed

lemma maxLoop_zero: "maxLoop (replicate n 0) i (0, 0) = (0, 0)"
  by (induction n arbitrary: i) simp_all

lemma analyzeFrame_zero:
  assumes "analyzer s = Some a"
    and "getByteFrequencyData a (frequencyBinCount a) = replicate n 0"
  shows "analyzeFrame now s a =
           (\<lparr> features = \<lparr> energy = 0, spectralCentroid = 0, spectralFlatness = 0,
                           spectralRolloff = 0, rms = 0, zcr = 0 \<rparr>,
              mood = currentMood s, moodConfidence = 1, dominantFrequency = 0 \<rparr>, s)"
proof -
  have e: "extractAudioFeatures (replicate n 0) noiseFloor (sensitivity s) =
     \<lparr> energy = 0, spectralCentroid = 0, spectralFlatness = 0, spectralRolloff = 0,
       rms = 0, zcr = 0 \<rparr>"
    by (rule extract_zero) (simp add: noiseFloor_def)
  have c: "detectMood \<lparr> energy = 0, spectralCentroid = 0, spectralFlatness = 0,
              spectralRolloff = 0, rms = 0, zcr = 0 \<rparr> now s = ((currentMood s, 1), s)"
    by (simp add: detectMood_def detectedMood_def)
  have d: "calculateDominantFrequencyGuarded s = 0"
    using assms by (simp add: calculateDominantFrequencyGuarded_def maxLoop_zero
        split: option.splits)
  show ?thesis
    by (simp add: analyzeFrame_def assms(2) e c d)
qed

lemma silentAnalyser_frame:
  "getByteFrequencyData silentAnalyser (frequencyBinCount silentAnalyser) = replicate 16 0"
  by (simp add: getByteFrequencyData_def frequencyBinCount_def silentAnalyser_def)

lemma runClosure_restarted:
  "runClosure (throwingHost 30) now
      \<lparr> serviceState = restarted, pendingFrames = p, awaitingMedia = w, published = sofar,
        rejectedPromises = q \<rparr>
   = (\<lparr> serviceState = restarted, pendingFrames = p, awaitingMedia = w,
        published = sofar @ [(10, silentResult), (20, silentResult)], rejectedPromises = q \<rparr>,
      True)"
proof -
  have an: "analyzer restarted = Some silentAnalyser" and ini: "isInitialized restarted"
    and ls: "listeners restarted = [10, 20]" and cm: "currentMood restarted = calm"
    by (simp_all add: restarted_def)
  have f: "analyzeFrame now restarted silentAnalyser = (silentResult, restarted)"
    using analyzeFrame_zero [OF an silentAnalyser_frame, of now]
    by (simp add: cm silentResult_def)
  have n: "notifyListeners (throwingHost 30) silentResult restarted = ([10, 20], False)"
    by (simp add: notifyListeners_def ls throwingHost_def)
  have "analyzeAudio (throwingHost 30) now
          \<lparr> service = restarted, framePending = True, received = sofar \<rparr>
        = \<lparr> service = restarted, framePending = True,
            received = sofar @ [(10, silentResult), (20, silentResult)] \<rparr>"
    using analyzeAudio_running [of "\<lparr> service = restarted, framePending = True, received = sofar \<rparr>"
        silentAnalyser now silentResult restarted "throwingHost 30"]
    by (simp add: ini an f n)
  then show ?thesis
    by (simp add: runClosure_def)
qed

text \<open>
  A running service is stopped, \<open>initialize()\<close> is called and, while it waits for the
  microphone, \<open>stop()\<close> is called again. When the microphone is granted the loop starts
  and publishes; at the next animation frame the closure of the first loop, which was
  never cancelled, publishes as well.
\<close>

theorem stop_then_publish_counterexample:
  "map fst (published (runLifecycle (throwingHost 30)
      \<lparr> serviceState = twoSubscribers, pendingFrames = 1, awaitingMedia = 0, published = [],
        rejectedPromises = 0 \<rparr>
      [StopCalled, InitializeCalled, StopCalled,
       MediaGranted \<lparr> tracksStopped = False \<rparr> \<lparr> sampleRate = 48000, contextClosed = False \<rparr>
         silentAnalyser 1000,
       AnimationFrame (replicate 16 0) 1016]))
   = [10, 20, 10, 20, 10, 20]"
proof -
  let ?h = "throwingHost 30"
  let ?closed = "\<lparr> audioContext = Some \<lparr> sampleRate = 48000, contextClosed = True \<rparr>,
       analyzer = Some silentAnalyser, stream = None, isInitialized = False, sensitivity = 1,
       listeners = [10, 20], currentMood = calm, moodChangeTime = 0 \<rparr>"
  let ?z0 = "\<lparr> serviceState = twoSubscribers, pendingFrames = 1, awaitingMedia = 0, published = [],
        rejectedPromises = 0 \<rparr>"
  let ?z1 = "\<lparr> serviceState = ?closed, pendingFrames = 1, awaitingMedia = 0, published = [],
        rejectedPromises = 0 \<rparr>"
  let ?z2 = "\<lparr> serviceState = ?closed, pendingFrames = 1, awaitingMedia = 1, published = [],
        rejectedPromises = 0 \<rparr>"
  let ?z3 = "\<lparr> serviceState = ?closed, pendingFrames = 1, awaitingMedia = 1, published = [],
        rejectedPromises = 1 \<rparr>"
  let ?z4 = "\<lparr> serviceState = restarted, pendingFrames = 2, awaitingMedia = 0,
        published = [(10, silentResult), (20, silentResult)], rejectedPromises = 1 \<rparr>"
  let ?z5 = "\<lparr> serviceState = restarted, pendingFrames = 2, awaitingMedia = 0,
        published = [(10, silentResult), (20, silentResult), (10, silentResult),
                     (20, silentResult), (10, silentResult), (20, silentResult)],
        rejectedPromises = 1 \<rparr>"
  have s1: "lifecycleStep ?h ?z0 StopCalled = ?z1"
    by (simp add: stop_def twoSubscribers_def)
  have s2: "lifecycleStep ?h ?z1 InitializeCalled = ?z2"
    by simp
  have s3: "lifecycleStep ?h ?z2 StopCalled = ?z3"
    by (simp add: stop_def)
  have fields: "analyzer restarted \<noteq> None" "audioContext restarted \<noteq> None"
    by (simp_all add: restarted_def)
  have "lifecycleStep ?h ?z3
              (MediaGranted \<lparr> tracksStopped = False \<rparr>
                 \<lparr> sampleRate = 48000, contextClosed = False \<rparr> silentAnalyser 1000)
        = startAnalysisLoop ?h 1000
            \<lparr> serviceState = restarted, pendingFrames = 1, awaitingMedia = 0, published = [],
              rejectedPromises = 1 \<rparr>"
    by (simp add: restarted_def)
  also have "\<dots> = ?z4"
    by (simp add: startAnalysisLoop_def fields runClosure_restarted)
  finally have s4: "lifecycleStep ?h ?z3
              (MediaGranted \<lparr> tracksStopped = False \<rparr>
                 \<lparr> sampleRate = 48000, contextClosed = False \<rparr> silentAnalyser 1000) = ?z4" .
  have refresh: "restarted\<lparr>analyzer :=
      map_option (\<lambda>a. a\<lparr>frequencyData := replicate 16 0\<rparr>) (analyzer restarted)\<rparr> = restarted"
    by (simp add: restarted_def silentAnalyser_def)
  have s5: "lifecycleStep ?h ?z4 (AnimationFrame (replicate 16 0) 1016) = ?z5"
    by (simp add: refresh numeral_2_eq_2 runClosure_restarted)
  have "runLifecycle ?h ?z0
      [StopCalled, InitializeCalled, StopCalled,
       MediaGranted \<lparr> tracksStopped = False \<rparr> \<lparr> sampleRate = 48000, contextClosed = False \<rparr>
         silentAnalyser 1000,
       AnimationFrame (replicate 16 0) 1016] = ?z5"
    by (simp only: runLifecycle_def foldl.simps s1 s2 s3 s4 s5)
  then show ?thesis
    by simp
qed

text \<open>
  C9, as the code has it. \<open>stop()\<close> clears \<open>isInitialized\<close>; a run of \<open>analyzeAudio\<close>
  then returns at its guard without touching the service or the subscribers and
  without requesting a new frame; as long as no call of \<open>initialize()\<close> obtains the
  microphone, no sequence of animation frames, calls of \<open>initialize()\<close>, refusals and
  further calls of \<open>stop()\<close> delivers a result. A further \<open>stop()\<close> leaves the service
  as it is and delivers nothing; on an existing context it adds one rejected promise.
\<close>

theorem stop_halts_until_acquired:
  "\<not> isInitialized (stop s)
   \<and> stop (stop s) = stop s
   \<and> analyzeAudio run now (r\<lparr>service := stop (service r)\<rparr>)
       = r\<lparr>service := stop (service r), framePending := False\<rparr>
   \<and> received (runEvents run (r\<lparr>service := stop (service r)\<rparr>) hostEvents) = received r
   \<and> runClosure run now (lifecycleStep run z StopCalled) = (lifecycleStep run z StopCalled, False)
   \<and> (noAcquisition evs \<longrightarrow>
        published (runLifecycle run (lifecycleStep run z StopCalled) evs) = published z
        \<and> \<not> isInitialized (serviceState (runLifecycle run (lifecycleStep run z StopCalled) evs)))
   \<and> serviceState (lifecycleStep run (lifecycleStep run z StopCalled) StopCalled)
       = serviceState (lifecycleStep run z StopCalled)
   \<and> published (lifecycleStep run (lifecycleStep run z StopCalled) StopCalled) = published z
   \<and> rejectedPromises (lifecycleStep run (lifecycleStep run z StopCalled) StopCalled)
       = rejectedPromises (lifecycleStep run z StopCalled)
         + (case audioContext (serviceState z) of None \<Rightarrow> 0 | Some c \<Rightarrow> 1)"
proof -
  have ni: "\<not> isInitialized (serviceState (lifecycleStep run z StopCalled))"
    by (simp add: stop_def)
  have p: "published (lifecycleStep run z StopCalled) = published z"
    by simp
  have tr: "published (runLifecycle run (lifecycleStep run z StopCalled) evs) = published z
        \<and> \<not> isInitialized (serviceState (runLifecycle run (lifecycleStep run z StopCalled) evs))"
    if "noAcquisition evs"
    using runLifecycle_stopped [OF ni that] p by simp
  have a: "analyzeAudio run now (r\<lparr>service := stop (service r)\<rparr>)
       = r\<lparr>service := stop (service r), framePending := False\<rparr>"
    by (simp add: analyzeAudio_stopped stop_def)
  have nr: "\<not> isInitialized (service (r\<lparr>service := stop (service r)\<rparr>))"
    by (simp add: stop_def)
  have h: "received (runEvents run (r\<lparr>service := stop (service r)\<rparr>) hostEvents) = received r"
    using runEvents_stopped [OF nr] by simp
  have c: "runClosure run now (lifecycleStep run z StopCalled) = (lifecycleStep run z StopCalled, False)"
    by (rule runClosure_stopped [OF ni])
  have s2: "serviceState (lifecycleStep run (lifecycleStep run z StopCalled) StopCalled)
       = serviceState (lifecycleStep run z StopCalled)"
    by (simp add: stop_idempotent)
  have rp: "rejectedPromises (lifecycleStep run (lifecycleStep run z StopCalled) StopCalled)
       = rejectedPromises (lifecycleStep run z StopCalled)
         + (case audioContext (serviceState z) of None \<Rightarrow> 0 | Some c \<Rightarrow> 1)"
    by (simp add: stop_def split: option.splits)
  have "\<not> isInitialized (stop s)"
    by (simp add: stop_def)
  then show ?thesis
    using tr a h c s2 rp by (simp add: stop_idempotent)
qed

theorem stop_halts_until_acquired_witness:
  "noAcquisition [AnimationFrame (replicate 16 0) 1016, InitializeCalled, MediaDenied,
      StopCalled, AnimationFrame (replicate 16 0) 1032]
   \<and> published (runLifecycle (throwingHost 30)
        (lifecycleStep (throwingHost 30)
           \<lparr> serviceState = twoSubscribers, pendingFrames = 1, awaitingMedia = 0,
             published = [], rejectedPromises = 0 \<rparr> StopCalled)
        [AnimationFrame (replicate 16 0) 1016, InitializeCalled, MediaDenied,
         StopCalled, AnimationFrame (replicate 16 0) 1032]) = []
   \<and> \<not> isInitialized (serviceState (runLifecycle (throwingHost 30)
        (lifecycleStep (throwingHost 30)
           \<lparr> serviceState = twoSubscribers, pendingFrames = 1, awaitingMedia = 0,
             published = [], rejectedPromises = 0 \<rparr> StopCalled)
        [AnimationFrame (replicate 16 0) 1016, InitializeCalled, MediaDenied,
         StopCalled, AnimationFrame (replicate 16 0) 1032]))"
proof -
  let ?z = "\<lparr> serviceState = twoSubscribers, pendingFrames = 1, awaitingMedia = 0,
             published = [], rejectedPromises = 0 \<rparr>"
  let ?evs = "[AnimationFrame (replicate 16 0) 1016, InitializeCalled, MediaDenied,
      StopCalled, AnimationFrame (replicate 16 0) 1032]"
  have n: "noAcquisition ?evs"
    by simp
  have "published (runLifecycle (throwingHost 30) (lifecycleStep (throwingHost 30) ?z StopCalled) ?evs)
          = published ?z
        \<and> \<not> isInitialized (serviceState (runLifecycle (throwingHost 30)
              (lifecycleStep (throwingHost 30) ?z StopCalled) ?evs))"
    using stop_halts_until_acquired [of _ "throwingHost 30" _ _ _ ?z ?evs] n by blast
  then show ?thesis
    using n by simp
qed

end
